theory Spec2Isabelle
  imports Complex_Main "HOL-Library.AList"
begin

section \<open>The document generator \<open>generate_pz.py\<close>\<close>

text \<open>
  The program builds one word-processing document through the \<open>python-docx\<close> API and a
  handful of helpers of its own (\<open>add_page_number\<close>, \<open>set_paragraph_format\<close>,
  \<open>add_heading\<close>, \<open>add_paragraph\<close>, \<open>add_list_item\<close>), which the section functions and
  \<open>main\<close> call in document order.

  Conventions of the embedding:
  \<^item> a Python \<open>str\<close> is a \<open>string\<close> holding its UTF-8 bytes; concatenation and a test for an
    ASCII prefix are the same on both sides;
  \<^item> the objects of the library (document, paragraph, run, table, raw XML element) are records
    of the properties the program assigns; a property never assigned is \<open>None\<close>, as the library
    reports it;
  \<^item> the numbers the source writes (\<open>1.5\<close>, \<open>1.25\<close>, \<open>14\<close>) are rationals, and a length keeps
    the unit it was written in (\<open>Pt 14\<close>, \<open>Cm 1.25\<close>);
  \<^item> a helper that mutates its argument returns the updated value; a function that mutates
    the document and returns the new paragraph returns both.
\<close>

subsection \<open>Raw XML elements and the page-number field\<close>

record element =
  tag :: string
  attrib :: "(string \<times> string) list"
  el_text :: "string option"

text \<open>\<open>qn\<close> of the library resolves a prefixed name; the model keeps the prefixed form.\<close>

definition qn :: "string \<Rightarrow> string" where
  "qn name = name"

definition OxmlElement :: "string \<Rightarrow> element" where
  "OxmlElement name = \<lparr>tag = name, attrib = [], el_text = None\<rparr>"

definition create_element :: "string \<Rightarrow> element" where
  "create_element name = OxmlElement name"

definition create_attribute :: "element \<Rightarrow> string \<Rightarrow> string \<Rightarrow> element" where
  "create_attribute element name val =
     element\<lparr>attrib := AList.update (qn name) val (attrib element)\<rparr>"

subsection \<open>Lengths, runs, paragraphs\<close>

datatype length = Pt rat | Cm rat

datatype WD_ALIGN_PARAGRAPH = LEFT | CENTER | RIGHT | JUSTIFY

record run =
  r_text :: string
  bold :: "bool option"
  font_name :: "string option"
  font_size :: "length option"
  east_asia :: "string option"
  r_children :: "element list"

record "paragraph" =
  alignment :: "WD_ALIGN_PARAGRAPH option"
  runs :: "run list"
  space_before :: "length option"
  space_after :: "length option"
  line_spacing :: "rat option"
  first_line_indent :: "length option"

text \<open>A fresh paragraph (\<open>doc.add_paragraph()\<close>) and a fresh run (\<open>p.add_run(text)\<close>).\<close>

definition new_paragraph :: "paragraph" where
  "new_paragraph = \<lparr>alignment = None, runs = [], space_before = None, space_after = None,
     line_spacing = None, first_line_indent = None\<rparr>"

definition new_run :: "string \<Rightarrow> run" where
  "new_run t = \<lparr>r_text = t, bold = None, font_name = None, font_size = None,
     east_asia = None, r_children = []\<rparr>"

definition add_run :: "paragraph \<Rightarrow> run \<Rightarrow> paragraph" where
  "add_run p r = p\<lparr>runs := runs p @ [r]\<rparr>"

text \<open>
  \<open>add_page_number(run)\<close>: two \<open>w:fldChar\<close> elements around one \<open>w:instrText\<close>, appended to the
  run's element in this order.
\<close>

definition r_append :: "run \<Rightarrow> element \<Rightarrow> run" where
  "r_append r e = r\<lparr>r_children := r_children r @ [e]\<rparr>"

definition add_page_number :: "run \<Rightarrow> run" where
  "add_page_number r =
     (let fldChar1 = create_attribute (create_element ''w:fldChar'') ''w:fldCharType'' ''begin'';
          instrText = (create_attribute (create_element ''w:instrText'') ''xml:space'' ''preserve'')
                        \<lparr>el_text := Some ''PAGE''\<rparr>;
          fldChar2 = create_attribute (create_element ''w:fldChar'') ''w:fldCharType'' ''end''
      in r_append (r_append (r_append r fldChar1) instrText) fldChar2)"

text \<open>The three nodes of a field, as the viewer reads them.\<close>

definition FieldBegin :: element where
  "FieldBegin = \<lparr>tag = ''w:fldChar'', attrib = [(''w:fldCharType'', ''begin'')], el_text = None\<rparr>"

definition FieldInstruction :: "string \<Rightarrow> element" where
  "FieldInstruction code =
     \<lparr>tag = ''w:instrText'', attrib = [(''xml:space'', ''preserve'')], el_text = Some code\<rparr>"

definition FieldEnd :: element where
  "FieldEnd = \<lparr>tag = ''w:fldChar'', attrib = [(''w:fldCharType'', ''end'')], el_text = None\<rparr>"

subsection \<open>Paragraph format\<close>

text \<open>Python's truth value of \<open>first_line_indent\<close>: \<open>None\<close> and zero are false.\<close>

definition truthy :: "rat option \<Rightarrow> bool" where
  "truthy v = (case v of None \<Rightarrow> False | Some x \<Rightarrow> x \<noteq> 0)"

text \<open>
  \<open>set_paragraph_format(paragraph, space_before=0, space_after=0, line_spacing=1.5,
  first_line_indent=1.25)\<close>; the callers' defaults are written out at each call.
\<close>

definition set_paragraph_format ::
  "paragraph \<Rightarrow> rat \<Rightarrow> rat \<Rightarrow> rat \<Rightarrow> rat option \<Rightarrow> paragraph" where
  "set_paragraph_format p sb sa ls fli =
     (let p = p\<lparr>space_before := Some (Pt sb)\<rparr>;
          p = p\<lparr>space_after := Some (Pt sa)\<rparr>;
          p = p\<lparr>line_spacing := Some ls\<rparr>
      in if truthy fli then p\<lparr>first_line_indent := Some (Cm (the fli))\<rparr>
         else p\<lparr>first_line_indent := Some (Cm 0)\<rparr>)"

subsection \<open>The document\<close>

type_synonym cell = "paragraph list"

record table =
  style :: "string option"
  rows :: "cell list list"

record section_geometry =
  page_height :: "length option"
  page_width :: "length option"
  left_margin :: "length option"
  right_margin :: "length option"
  top_margin :: "length option"
  bottom_margin :: "length option"
  header_distance :: "length option"
  footer_distance :: "length option"

text \<open>
  The body of the document in reading order. \<open>doc.add_page_break()\<close> is kept as a block of
  its own: the library renders it as a paragraph holding one break and no text.
\<close>

datatype block = Para "paragraph" | Tbl table | PageBreak

record document =
  sections :: "section_geometry list"
  body :: "block list"

definition doc_append :: "document \<Rightarrow> block \<Rightarrow> document" where
  "doc_append doc b = doc\<lparr>body := body doc @ [b]\<rparr>"

subsection \<open>Headings, paragraphs, list items\<close>

text \<open>
  \<open>str.upper\<close> is the library's; the functions take it as the parameter \<open>upper\<close>.
  \<open>level\<close> is whatever the caller passes: an integer.
\<close>

definition add_heading ::
  "(string \<Rightarrow> string) \<Rightarrow> document \<Rightarrow> string \<Rightarrow> int \<Rightarrow> document \<times> paragraph" where
  "add_heading upper doc text level =
     (if level = 1 then
        (let p = new_paragraph;
             p = p\<lparr>alignment := Some CENTER\<rparr>;
             r = new_run (upper text);
             r = r\<lparr>bold := Some True\<rparr>;
             r = r\<lparr>font_name := Some ''Times New Roman''\<rparr>;
             r = r\<lparr>font_size := Some (Pt 14)\<rparr>;
             r = r\<lparr>east_asia := Some ''Times New Roman''\<rparr>;
             p = add_run p r;
             p = set_paragraph_format p 0 12 1.5 None
         in (doc_append doc (Para p), p))
      else
        (let p = new_paragraph;
             p = p\<lparr>alignment := Some JUSTIFY\<rparr>;
             r = new_run text;
             r = r\<lparr>bold := Some True\<rparr>;
             r = r\<lparr>font_name := Some ''Times New Roman''\<rparr>;
             r = r\<lparr>font_size := Some (Pt 14)\<rparr>;
             r = r\<lparr>east_asia := Some ''Times New Roman''\<rparr>;
             p = add_run p r;
             p = set_paragraph_format p 12 6 1.5 (Some 1.25)
         in (doc_append doc (Para p), p)))"

definition add_paragraph :: "document \<Rightarrow> string \<Rightarrow> bool \<Rightarrow> bool \<Rightarrow> document \<times> paragraph" where
  "add_paragraph doc text bold_flag indent =
     (let p = new_paragraph;
          p = p\<lparr>alignment := Some JUSTIFY\<rparr>;
          r = new_run text;
          r = r\<lparr>bold := Some bold_flag\<rparr>;
          r = r\<lparr>font_name := Some ''Times New Roman''\<rparr>;
          r = r\<lparr>font_size := Some (Pt 14)\<rparr>;
          r = r\<lparr>east_asia := Some ''Times New Roman''\<rparr>;
          p = add_run p r;
          p = set_paragraph_format p 0 0 1.5 (Some (if indent then 1.25 else 0))
      in (doc_append doc (Para p), p))"

text \<open>Python's \<open>str\<close> of an integer, as the f-string \<open>f"{number}) {text}"\<close> formats it.\<close>

definition digit :: "nat \<Rightarrow> char" where
  "digit d = ''0123456789'' ! d"

fun str_nat :: "nat \<Rightarrow> string" where
  "str_nat n = (if n < 10 then [digit n] else str_nat (n div 10) @ [digit (n mod 10)])"

declare str_nat.simps [simp del]

definition str_int :: "int \<Rightarrow> string" where
  "str_int i = (if i < 0 then CHR ''-'' # str_nat (nat (- i)) else str_nat (nat i))"

text \<open>The en dash U+2013 of the source's \<open>f"\<dots> {text}"\<close>, in UTF-8.\<close>

definition en_dash :: string where
  "en_dash = [CHR 0xE2, CHR 0x80, CHR 0x93]"

text \<open>\<open>if number:\<close> is Python's truth value: \<open>None\<close> and \<open>0\<close> are false.\<close>

definition truthy_int :: "int option \<Rightarrow> bool" where
  "truthy_int v = (case v of None \<Rightarrow> False | Some n \<Rightarrow> n \<noteq> 0)"

definition add_list_item :: "document \<Rightarrow> string \<Rightarrow> int option \<Rightarrow> document \<times> paragraph" where
  "add_list_item doc text number =
     (let p = new_paragraph;
          p = p\<lparr>alignment := Some JUSTIFY\<rparr>;
          r = (if truthy_int number then new_run (str_int (the number) @ '') '' @ text)
               else new_run (en_dash @ '' '' @ text));
          r = r\<lparr>font_name := Some ''Times New Roman''\<rparr>;
          r = r\<lparr>font_size := Some (Pt 14)\<rparr>;
          r = r\<lparr>east_asia := Some ''Times New Roman''\<rparr>;
          p = add_run p r;
          p = set_paragraph_format p 0 0 1.5 (Some 1.25)
      in (doc_append doc (Para p), p))"

definition add_page_break :: "document \<Rightarrow> document" where
  "add_page_break doc = doc_append doc PageBreak"

subsection \<open>The literal text of the report\<close>

text \<open>
  The report's text is data: the string literal that starts on line \<open>n\<close> of the source is
  \<open>lit n\<close>, a parameter of the functions below. Short literals of printable ASCII (table cells,
  page numbers, separators) are written out. A sequence of calls on \<open>doc\<close> is the list of its
  statements, run in order.
\<close>

definition STUDENT_NAME :: "(nat \<Rightarrow> string) \<Rightarrow> string" where
  "STUDENT_NAME lit = lit 18"

definition GROUP :: string where
  "GROUP = ''221-361''"

definition TEACHER :: "(nat \<Rightarrow> string) \<Rightarrow> string" where
  "TEACHER lit = lit 21"

definition TOPIC :: "(nat \<Rightarrow> string) \<Rightarrow> string" where
  "TOPIC lit = lit 22"

definition YEAR :: string where
  "YEAR = ''2025''"

type_synonym statement = "document \<Rightarrow> document"

definition run_statements :: "document \<Rightarrow> statement list \<Rightarrow> document" where
  "run_statements doc stmts = foldl (\<lambda>d s. s d) doc stmts"

definition doc_add_paragraph :: "document \<Rightarrow> document" where
  "doc_add_paragraph doc = doc_append doc (Para new_paragraph)"

subsection \<open>Page geometry\<close>

definition setup_document :: "document \<Rightarrow> document" where
  "setup_document doc =
     doc\<lparr>sections := map (\<lambda>s. s\<lparr>page_height := Some (Cm 29.7), page_width := Some (Cm 21),
         left_margin := Some (Cm 3), right_margin := Some (Cm 1.5), top_margin := Some (Cm 2),
         bottom_margin := Some (Cm 2), header_distance := Some (Cm 1.25),
         footer_distance := Some (Cm 1.25)\<rparr>) (sections doc)\<rparr>"

subsection \<open>Title page\<close>

definition create_title_page :: "(nat \<Rightarrow> string) \<Rightarrow> document \<Rightarrow> document" where
  "create_title_page lit doc = run_statements doc
     [(\<lambda>doc. doc_append doc (Para (add_run (new_paragraph\<lparr>alignment := Some CENTER\<rparr>)
         ((new_run (lit 142))\<lparr>font_name := Some ''Times New Roman'',
            font_size := Some (Pt 14), east_asia := Some ''Times New Roman''\<rparr>)))),
      (\<lambda>doc. doc_append doc (Para (add_run (new_paragraph\<lparr>alignment := Some CENTER\<rparr>)
         ((new_run (lit 149))\<lparr>font_name := Some ''Times New Roman'',
            font_size := Some (Pt 14), east_asia := Some ''Times New Roman''\<rparr>)))),
      (\<lambda>doc. doc_append doc (Para (add_run (new_paragraph\<lparr>alignment := Some CENTER\<rparr>)
         ((new_run (lit 156))\<lparr>font_name := Some ''Times New Roman'',
            font_size := Some (Pt 14), east_asia := Some ''Times New Roman''\<rparr>)))),
      (\<lambda>doc. doc_append doc (Para (add_run (new_paragraph\<lparr>alignment := Some CENTER\<rparr>)
         ((new_run (lit 163))\<lparr>font_name := Some ''Times New Roman'',
            font_size := Some (Pt 14), east_asia := Some ''Times New Roman''\<rparr>)))),
      (doc_add_paragraph ^^ 5),
      (\<lambda>doc. doc_append doc (Para (add_run (new_paragraph\<lparr>alignment := Some CENTER\<rparr>)
         ((new_run (lit 175))\<lparr>font_name := Some ''Times New Roman'',
            font_size := Some (Pt 14), east_asia := Some ''Times New Roman''\<rparr>)))),
      (\<lambda>doc. doc_append doc (Para (add_run (new_paragraph\<lparr>alignment := Some CENTER\<rparr>)
         ((new_run (lit 182))\<lparr>font_name := Some ''Times New Roman'',
            font_size := Some (Pt 14), east_asia := Some ''Times New Roman''\<rparr>)))),
      (\<lambda>doc. doc_append doc (Para (add_run (new_paragraph\<lparr>alignment := Some CENTER\<rparr>)
         ((new_run (TOPIC lit))\<lparr>bold := Some True, font_name := Some ''Times New Roman'',
            font_size := Some (Pt 14), east_asia := Some ''Times New Roman''\<rparr>)))),
      doc_add_paragraph,
      (\<lambda>doc. doc_append doc (Para (add_run (new_paragraph\<lparr>alignment := Some CENTER\<rparr>)
         ((new_run (lit 201))\<lparr>font_name := Some ''Times New Roman'',
            font_size := Some (Pt 14), east_asia := Some ''Times New Roman''\<rparr>)))),
      doc_add_paragraph,
      (\<lambda>doc. doc_append doc (Para (add_run (new_paragraph\<lparr>alignment := Some CENTER\<rparr>)
         ((new_run (lit 211))\<lparr>font_name := Some ''Times New Roman'',
            font_size := Some (Pt 14), east_asia := Some ''Times New Roman''\<rparr>)))),
      (\<lambda>doc. doc_append doc (Para (add_run (new_paragraph\<lparr>alignment := Some CENTER\<rparr>)
         ((new_run (lit 218))\<lparr>font_name := Some ''Times New Roman'',
            font_size := Some (Pt 14), east_asia := Some ''Times New Roman''\<rparr>)))),
      (\<lambda>doc. doc_append doc (Para (add_run (new_paragraph\<lparr>alignment := Some CENTER\<rparr>)
         ((new_run (lit 225))\<lparr>font_name := Some ''Times New Roman'',
            font_size := Some (Pt 14), east_asia := Some ''Times New Roman''\<rparr>)))),
      (doc_add_paragraph ^^ 4),
      (\<lambda>doc. doc_append doc (Para (add_run (new_paragraph)
         ((new_run (lit 236 @ STUDENT_NAME lit @ '', '' @ GROUP))\<lparr>font_name := Some ''Times New Roman'',
            font_size := Some (Pt 14), east_asia := Some ''Times New Roman''\<rparr>)))),
      doc_add_paragraph,
      (\<lambda>doc. doc_append doc (Para (add_run (new_paragraph)
         ((new_run (lit 245 @ TEACHER lit))\<lparr>font_name := Some ''Times New Roman'',
            font_size := Some (Pt 14), east_asia := Some ''Times New Roman''\<rparr>)))),
      (doc_add_paragraph ^^ 8),
      (\<lambda>doc. doc_append doc (Para (add_run (new_paragraph\<lparr>alignment := Some CENTER\<rparr>)
         ((new_run (lit 257 @ YEAR))\<lparr>font_name := Some ''Times New Roman'',
            font_size := Some (Pt 14), east_asia := Some ''Times New Roman''\<rparr>))))]"

subsection \<open>Table of contents\<close>

definition toc_items :: "(nat \<Rightarrow> string) \<Rightarrow> (string \<times> string) list" where
  "toc_items lit =
     [(lit 267, ''3''),
      (lit 268, ''5''),
      (lit 269, ''5''),
      (lit 270, ''7''),
      (lit 271, ''8''),
      (lit 272, ''10''),
      (lit 273, ''10''),
      (lit 274, ''11''),
      (lit 275, ''13''),
      (lit 276, ''15''),
      (lit 277, ''15''),
      (lit 278, ''16''),
      (lit 279, ''18''),
      (lit 280, ''19''),
      (lit 281, ''19''),
      (lit 282, ''21''),
      (lit 283, ''23''),
      (lit 284, ''24'')]"

text \<open>\<open>item.startswith((\<dots>))\<close> with a tuple of prefixes.\<close>

definition startswith :: "string \<Rightarrow> string list \<Rightarrow> bool" where
  "startswith s prefixes = list_ex (\<lambda>pfx. take (length pfx) s = pfx) prefixes"

definition tab :: string where
  "tab = [CHR 0x09]"

text \<open>The body of the loop over \<open>toc_items\<close>: the paragraph it builds, and its place.\<close>

definition toc_paragraph :: "string \<Rightarrow> string \<Rightarrow> paragraph" where
  "toc_paragraph item page =
     (let p = new_paragraph;
          r = (if startswith item [''1.'', ''2.'', ''3.'', ''4.''] then new_run (tab @ item)
               else new_run item);
          r = r\<lparr>font_name := Some ''Times New Roman''\<rparr>;
          r = r\<lparr>font_size := Some (Pt 14)\<rparr>;
          r = r\<lparr>east_asia := Some ''Times New Roman''\<rparr>;
          p = add_run p r;
          tab_run = new_run (tab @ page);
          tab_run = tab_run\<lparr>font_name := Some ''Times New Roman''\<rparr>;
          tab_run = tab_run\<lparr>font_size := Some (Pt 14)\<rparr>;
          p = add_run p tab_run
      in set_paragraph_format p 0 0 1.5 (Some 0))"

definition toc_entry :: "document \<Rightarrow> string \<Rightarrow> string \<Rightarrow> document" where
  "toc_entry doc item page = doc_append doc (Para (toc_paragraph item page))"

definition create_toc ::
  "(string \<Rightarrow> string) \<Rightarrow> (nat \<Rightarrow> string) \<Rightarrow> document \<Rightarrow> document" where
  "create_toc upper lit doc =
     foldl (\<lambda>d (item, page). toc_entry d item page)
       (fst (add_heading upper doc (lit 264) 1)) (toc_items lit)"

subsection \<open>Sections of text\<close>

definition create_introduction ::
  "(string \<Rightarrow> string) \<Rightarrow> (nat \<Rightarrow> string) \<Rightarrow> document \<Rightarrow> document" where
  "create_introduction upper lit doc = run_statements doc
     [(\<lambda>doc. fst (add_heading upper doc (lit 307) 1)),
      (\<lambda>doc. fst (add_paragraph doc (lit 309) False True)),
      (\<lambda>doc. fst (add_paragraph doc (lit 311) False True)),
      (\<lambda>doc. fst (add_paragraph doc (lit 313) False True)),
      (\<lambda>doc. fst (add_paragraph doc (lit 315) False True)),
      (\<lambda>doc. fst (add_paragraph doc (lit 317) False True)),
      (\<lambda>doc. fst (add_paragraph doc (lit 319) False True)),
      (\<lambda>doc. fst (add_list_item doc (lit 321) (Some 1))),
      (\<lambda>doc. fst (add_list_item doc (lit 322) (Some 2))),
      (\<lambda>doc. fst (add_list_item doc (lit 323) (Some 3))),
      (\<lambda>doc. fst (add_list_item doc (lit 324) (Some 4))),
      (\<lambda>doc. fst (add_list_item doc (lit 325) (Some 5))),
      (\<lambda>doc. fst (add_list_item doc (lit 326) (Some 6))),
      (\<lambda>doc. fst (add_paragraph doc (lit 328) False True))]"

definition create_section1 ::
  "(string \<Rightarrow> string) \<Rightarrow> (nat \<Rightarrow> string) \<Rightarrow> document \<Rightarrow> document" where
  "create_section1 upper lit doc = run_statements doc
     [(\<lambda>doc. fst (add_heading upper doc (lit 332) 1)),
      (\<lambda>doc. fst (add_heading upper doc (lit 334) 2)),
      (\<lambda>doc. fst (add_paragraph doc (lit 336) False True)),
      (\<lambda>doc. fst (add_paragraph doc (lit 338) False True)),
      (\<lambda>doc. fst (add_list_item doc (lit 340) (Some 1))),
      (\<lambda>doc. fst (add_list_item doc (lit 341) (Some 2))),
      (\<lambda>doc. fst (add_list_item doc (lit 342) (Some 3))),
      (\<lambda>doc. fst (add_list_item doc (lit 343) (Some 4))),
      (\<lambda>doc. fst (add_list_item doc (lit 344) (Some 5))),
      (\<lambda>doc. fst (add_list_item doc (lit 345) (Some 6))),
      (\<lambda>doc. fst (add_list_item doc (lit 346) (Some 7))),
      (\<lambda>doc. fst (add_paragraph doc (lit 348) False True)),
      (\<lambda>doc. fst (add_list_item doc (lit 350) None)),
      (\<lambda>doc. fst (add_list_item doc (lit 351) None)),
      (\<lambda>doc. fst (add_list_item doc (lit 352) None)),
      (\<lambda>doc. fst (add_list_item doc (lit 353) None)),
      (\<lambda>doc. fst (add_heading upper doc (lit 355) 2)),
      (\<lambda>doc. fst (add_paragraph doc (lit 357) False True)),
      (\<lambda>doc. fst (add_paragraph doc (lit 359) False True)),
      (\<lambda>doc. fst (add_list_item doc (lit 360) None)),
      (\<lambda>doc. fst (add_list_item doc (lit 361) None)),
      (\<lambda>doc. fst (add_paragraph doc (lit 363) False True)),
      (\<lambda>doc. fst (add_list_item doc (lit 364) None)),
      (\<lambda>doc. fst (add_list_item doc (lit 365) None)),
      (\<lambda>doc. fst (add_list_item doc (lit 366) None)),
      (\<lambda>doc. fst (add_paragraph doc (lit 368) False True)),
      (\<lambda>doc. fst (add_list_item doc (lit 369) None)),
      (\<lambda>doc. fst (add_list_item doc (lit 370) None)),
      (\<lambda>doc. fst (add_heading upper doc (lit 372) 2)),
      (\<lambda>doc. fst (add_paragraph doc (lit 374) False True)),
      (\<lambda>doc. fst (add_paragraph doc (lit 376) False True)),
      (\<lambda>doc. fst (add_list_item doc (lit 377) None)),
      (\<lambda>doc. fst (add_list_item doc (lit 378) None)),
      (\<lambda>doc. fst (add_list_item doc (lit 379) None)),
      (\<lambda>doc. fst (add_list_item doc (lit 380) None)),
      (\<lambda>doc. fst (add_list_item doc (lit 381) None)),
      (\<lambda>doc. fst (add_paragraph doc (lit 383) False True)),
      (\<lambda>doc. fst (add_list_item doc (lit 384) None)),
      (\<lambda>doc. fst (add_list_item doc (lit 385) None)),
      (\<lambda>doc. fst (add_list_item doc (lit 386) None)),
      (\<lambda>doc. fst (add_list_item doc (lit 387) None)),
      (\<lambda>doc. fst (add_list_item doc (lit 388) None)),
      (\<lambda>doc. fst (add_paragraph doc (lit 390) False True)),
      (\<lambda>doc. fst (add_list_item doc (lit 391) None)),
      (\<lambda>doc. fst (add_list_item doc (lit 392) None)),
      (\<lambda>doc. fst (add_list_item doc (lit 393) None)),
      (\<lambda>doc. fst (add_list_item doc (lit 394) None)),
      (\<lambda>doc. fst (add_list_item doc (lit 395) None)),
      (\<lambda>doc. fst (add_list_item doc (lit 396) None))]"

definition create_section2 ::
  "(string \<Rightarrow> string) \<Rightarrow> (nat \<Rightarrow> string) \<Rightarrow> document \<Rightarrow> document" where
  "create_section2 upper lit doc = run_statements doc
     [(\<lambda>doc. fst (add_heading upper doc (lit 400) 1)),
      (\<lambda>doc. fst (add_heading upper doc (lit 402) 2)),
      (\<lambda>doc. fst (add_paragraph doc (lit 404) False True)),
      (\<lambda>doc. fst (add_paragraph doc (lit 406) False True)),
      (\<lambda>doc. fst (add_paragraph doc (lit 408) False True)),
      (\<lambda>doc. fst (add_paragraph doc (lit 410) False True)),
      (\<lambda>doc. fst (add_paragraph doc (lit 412) False True)),
      (\<lambda>doc. fst (add_paragraph doc (lit 414) False True)),
      (\<lambda>doc. fst (add_list_item doc (lit 416) None)),
      (\<lambda>doc. fst (add_list_item doc (lit 417) None)),
      (\<lambda>doc. fst (add_list_item doc (lit 418) None)),
      (\<lambda>doc. fst (add_list_item doc (lit 419) None)),
      (\<lambda>doc. fst (add_heading upper doc (lit 421) 2)),
      (\<lambda>doc. fst (add_paragraph doc (lit 423) False True)),
      (\<lambda>doc. fst (add_paragraph doc (lit 425) False True)),
      (\<lambda>doc. fst (add_list_item doc (lit 426) None)),
      (\<lambda>doc. fst (add_list_item doc (lit 427) None)),
      (\<lambda>doc. fst (add_list_item doc (lit 428) None)),
      (\<lambda>doc. fst (add_paragraph doc (''2. Auth Service (Rust + Axum):'') False True)),
      (\<lambda>doc. fst (add_list_item doc (lit 431) None)),
      (\<lambda>doc. fst (add_list_item doc (lit 432) None)),
      (\<lambda>doc. fst (add_list_item doc (lit 433) None)),
      (\<lambda>doc. fst (add_paragraph doc (''3. Cache Service (Go + Gin):'') False True)),
      (\<lambda>doc. fst (add_list_item doc (lit 436) None)),
      (\<lambda>doc. fst (add_list_item doc (lit 437) None)),
      (\<lambda>doc. fst (add_list_item doc (lit 438) None)),
      (\<lambda>doc. fst (add_paragraph doc (''4. Nginx (Reverse Proxy):'') False True)),
      (\<lambda>doc. fst (add_list_item doc (lit 441) None)),
      (\<lambda>doc. fst (add_list_item doc (lit 442) None)),
      (\<lambda>doc. fst (add_list_item doc (lit 443) None)),
      (\<lambda>doc. fst (add_paragraph doc (''5. PostgreSQL:'') False True)),
      (\<lambda>doc. fst (add_list_item doc (lit 446) None)),
      (\<lambda>doc. fst (add_list_item doc (lit 447) None)),
      (\<lambda>doc. fst (add_paragraph doc (lit 449) False True)),
      (\<lambda>doc. fst (add_heading upper doc (lit 451) 2)),
      (\<lambda>doc. fst (add_paragraph doc (lit 453) False True)),
      (\<lambda>doc. fst (add_paragraph doc (lit 455) False True)),
      (\<lambda>doc. fst (add_list_item doc (lit 456) None)),
      (\<lambda>doc. fst (add_list_item doc (lit 457) None)),
      (\<lambda>doc. fst (add_list_item doc (lit 458) None)),
      (\<lambda>doc. fst (add_list_item doc (lit 459) None)),
      (\<lambda>doc. fst (add_paragraph doc (lit 461) False True)),
      (\<lambda>doc. fst (add_list_item doc (lit 462) None)),
      (\<lambda>doc. fst (add_list_item doc (lit 463) None)),
      (\<lambda>doc. fst (add_list_item doc (lit 464) None)),
      (\<lambda>doc. fst (add_list_item doc (lit 465) None)),
      (\<lambda>doc. fst (add_paragraph doc (lit 467) False True)),
      (\<lambda>doc. fst (add_list_item doc (lit 468) None)),
      (\<lambda>doc. fst (add_list_item doc (lit 469) None)),
      (\<lambda>doc. fst (add_list_item doc (lit 470) None)),
      (\<lambda>doc. fst (add_paragraph doc (lit 472) False True)),
      (\<lambda>doc. fst (add_list_item doc (lit 473) None)),
      (\<lambda>doc. fst (add_list_item doc (lit 474) None)),
      (\<lambda>doc. fst (add_list_item doc (lit 475) None))]"

definition create_section3 ::
  "(string \<Rightarrow> string) \<Rightarrow> (nat \<Rightarrow> string) \<Rightarrow> document \<Rightarrow> document" where
  "create_section3 upper lit doc = run_statements doc
     [(\<lambda>doc. fst (add_heading upper doc (lit 479) 1)),
      (\<lambda>doc. fst (add_heading upper doc (lit 481) 2)),
      (\<lambda>doc. fst (add_paragraph doc (lit 483) False True)),
      (\<lambda>doc. fst (add_paragraph doc (lit 485) False True)),
      (\<lambda>doc. fst (add_paragraph doc (lit 487) False True)),
      (\<lambda>doc. fst (add_list_item doc (lit 488) None)),
      (\<lambda>doc. fst (add_list_item doc (lit 489) None)),
      (\<lambda>doc. fst (add_list_item doc (lit 490) None)),
      (\<lambda>doc. fst (add_list_item doc (lit 491) None)),
      (\<lambda>doc. fst (add_paragraph doc (lit 493) False True)),
      (\<lambda>doc. fst (add_list_item doc (lit 494) None)),
      (\<lambda>doc. fst (add_list_item doc (lit 495) None)),
      (\<lambda>doc. fst (add_heading upper doc (lit 497) 2)),
      (\<lambda>doc. fst (add_paragraph doc (lit 499) False True)),
      (\<lambda>doc. fst (add_paragraph doc (lit 501) False False)),
      (\<lambda>doc. fst (add_paragraph doc (lit 502) False False)),
      (\<lambda>doc. fst (add_paragraph doc (lit 507) False False)),
      (\<lambda>doc. fst (add_paragraph doc (lit 508) False False)),
      (\<lambda>doc. fst (add_paragraph doc (lit 514) False True)),
      (\<lambda>doc. fst (add_paragraph doc (lit 516) False False)),
      (\<lambda>doc. fst (add_paragraph doc (lit 517) False False)),
      (\<lambda>doc. fst (add_paragraph doc (lit 522) False False)),
      (\<lambda>doc. fst (add_paragraph doc (lit 523) False False)),
      (\<lambda>doc. fst (add_paragraph doc (lit 530) False True)),
      (\<lambda>doc. fst (add_paragraph doc (lit 531) False False)),
      (\<lambda>doc. fst (add_paragraph doc (lit 532) False False)),
      (\<lambda>doc. fst (add_heading upper doc (lit 534) 2)),
      (\<lambda>doc. fst (add_paragraph doc (lit 536) False True)),
      (\<lambda>doc. fst (add_paragraph doc (lit 538) False False)),
      (\<lambda>doc. fst (add_paragraph doc (lit 546) False True)),
      (\<lambda>doc. fst (add_list_item doc (lit 548) (Some 1))),
      (\<lambda>doc. fst (add_list_item doc (lit 549) (Some 2))),
      (\<lambda>doc. fst (add_list_item doc (lit 550) (Some 3))),
      (\<lambda>doc. fst (add_list_item doc (lit 551) (Some 4))),
      (\<lambda>doc. fst (add_list_item doc (lit 552) (Some 5))),
      (\<lambda>doc. fst (add_list_item doc (lit 553) (Some 6))),
      (\<lambda>doc. fst (add_paragraph doc (lit 555) False True))]"

subsection \<open>The table of section 4\<close>

datatype py_error = IndexError

text \<open>
  \<open>doc.add_table(rows, cols)\<close>: every cell starts with one empty paragraph.
  \<open>table.rows[r].cells[c]\<close> raises \<open>IndexError\<close> out of range; \<open>cell.text = s\<close> replaces the
  cell's content by one paragraph with one run.
\<close>

definition add_table :: "nat \<Rightarrow> nat \<Rightarrow> table" where
  "add_table r c = \<lparr>style = None, rows = replicate r (replicate c [new_paragraph])\<rparr>"

definition get_cell :: "table \<Rightarrow> nat \<Rightarrow> nat \<Rightarrow> py_error + cell" where
  "get_cell t r c =
     (if r < length (rows t) then
        (if c < length (rows t ! r) then Inr (rows t ! r ! c) else Inl IndexError)
      else Inl IndexError)"

definition put_cell :: "table \<Rightarrow> nat \<Rightarrow> nat \<Rightarrow> cell \<Rightarrow> table" where
  "put_cell t r c v = t\<lparr>rows := (rows t)[r := (rows t ! r)[c := v]]\<rparr>"

definition set_text :: "cell \<Rightarrow> string \<Rightarrow> cell" where
  "set_text c s = [add_run new_paragraph (new_run s)]"

text \<open>\<open>for paragraph in cell.paragraphs: for run in paragraph.runs: run.bold = True\<close>\<close>

definition bold_runs :: "cell \<Rightarrow> cell" where
  "bold_runs c = map (\<lambda>p. p\<lparr>runs := map (\<lambda>r. r\<lparr>bold := Some True\<rparr>) (runs p)\<rparr>) c"

text \<open>\<open>for i, header in enumerate(headers)\<close>, from index \<open>i\<close> on.\<close>

fun header_loop :: "table \<Rightarrow> nat \<Rightarrow> string list \<Rightarrow> py_error + table" where
  "header_loop t i [] = Inr t"
| "header_loop t i (header # rest) =
     (case get_cell t 0 i of
        Inl e \<Rightarrow> Inl e
      | Inr cell \<Rightarrow> header_loop (put_cell t 0 i (bold_runs (set_text cell header))) (Suc i) rest)"

text \<open>\<open>for col_idx, cell_data in enumerate(row_data)\<close>, from index \<open>col_idx\<close> on.\<close>

fun row_loop :: "table \<Rightarrow> nat \<Rightarrow> nat \<Rightarrow> string list \<Rightarrow> py_error + table" where
  "row_loop t row_idx col_idx [] = Inr t"
| "row_loop t row_idx col_idx (cell_data # rest) =
     (case get_cell t row_idx col_idx of
        Inl e \<Rightarrow> Inl e
      | Inr cell \<Rightarrow>
          row_loop (put_cell t row_idx col_idx (set_text cell cell_data)) row_idx (Suc col_idx) rest)"

text \<open>\<open>for row_idx, row_data in enumerate(data, 1)\<close>, from index \<open>row_idx\<close> on.\<close>

fun data_loop :: "table \<Rightarrow> nat \<Rightarrow> string list list \<Rightarrow> py_error + table" where
  "data_loop t row_idx [] = Inr t"
| "data_loop t row_idx (row_data # rest) =
     (case row_loop t row_idx 0 row_data of
        Inl e \<Rightarrow> Inl e
      | Inr t' \<Rightarrow> data_loop t' (Suc row_idx) rest)"

text \<open>
  The table code of \<open>create_section4\<close>, from \<open>doc.add_table(rows=4, cols=4)\<close> to the end of the
  second loop. The two local lists \<open>headers\<close> and \<open>data\<close> are its arguments, and
  \<open>create_section4\<close> passes the lists the source writes; the table always has 4 rows and
  4 columns. An exception leaves the function.
\<close>

definition create_section4_table ::
  "document \<Rightarrow> string list \<Rightarrow> string list list \<Rightarrow> py_error + document" where
  "create_section4_table doc headers data =
     (let table = add_table 4 4;
          table = table\<lparr>style := Some ''Table Grid''\<rparr>
      in case header_loop table 0 headers of
           Inl e \<Rightarrow> Inl e
         | Inr table \<Rightarrow>
             (case data_loop table 1 data of
                Inl e \<Rightarrow> Inl e
              | Inr table \<Rightarrow> Inr (doc_append doc (Tbl table))))"

definition create_section4 ::
  "(string \<Rightarrow> string) \<Rightarrow> (nat \<Rightarrow> string) \<Rightarrow> document \<Rightarrow> py_error + document" where
  "create_section4 upper lit doc =
     (let doc = run_statements doc
       [(\<lambda>doc. fst (add_heading upper doc (lit 559) 1)),
          (\<lambda>doc. fst (add_heading upper doc (lit 561) 2)),
          (\<lambda>doc. fst (add_paragraph doc (lit 563) False True)),
          (\<lambda>doc. fst (add_paragraph doc (lit 565) False False)),
          (\<lambda>doc. fst (add_paragraph doc (lit 572) False True)),
          (\<lambda>doc. fst (add_list_item doc (lit 574) None)),
          (\<lambda>doc. fst (add_list_item doc (lit 575) None)),
          (\<lambda>doc. fst (add_list_item doc (lit 576) None)),
          (\<lambda>doc. fst (add_list_item doc (lit 577) None)),
          (\<lambda>doc. fst (add_paragraph doc (lit 579) False True)),
          (\<lambda>doc. fst (add_paragraph doc (lit 581) False False)),
          (\<lambda>doc. fst (add_paragraph doc (lit 586) False True)),
          (\<lambda>doc. fst (add_list_item doc (lit 587) None)),
          (\<lambda>doc. fst (add_list_item doc (lit 588) None)),
          (\<lambda>doc. fst (add_list_item doc (lit 589) None)),
          (\<lambda>doc. fst (add_paragraph doc (lit 591) False True)),
          (\<lambda>doc. fst (add_heading upper doc (lit 593) 2)),
          (\<lambda>doc. fst (add_paragraph doc (lit 595) False True)),
          (\<lambda>doc. fst (add_paragraph doc (lit 597) False True))]
      in case create_section4_table doc [lit 603, ''ns/op'', ''B/op'', ''allocs/op'']
             [[''MapCache'', ''220'', ''32'', ''1''],
              [''FilesystemCache'', ''8000'', ''512'', ''5''],
              [''SQLiteCache'', ''78000'', ''1024'', ''12'']] of
           Inl e \<Rightarrow> Inl e
         | Inr doc \<Rightarrow> Inr (run_statements doc
       [doc_add_paragraph,
          (\<lambda>doc. fst (add_paragraph doc (lit 623) False True)),
          (\<lambda>doc. fst (add_paragraph doc (lit 625) False True)),
          (\<lambda>doc. fst (add_list_item doc (lit 626) (Some 1))),
          (\<lambda>doc. fst (add_list_item doc (lit 627) (Some 2))),
          (\<lambda>doc. fst (add_list_item doc (lit 628) (Some 3))),
          (\<lambda>doc. fst (add_list_item doc (lit 629) (Some 4))),
          (\<lambda>doc. fst (add_list_item doc (lit 630) (Some 5))),
          (\<lambda>doc. fst (add_paragraph doc (lit 632) False True))]))"

definition create_conclusion ::
  "(string \<Rightarrow> string) \<Rightarrow> (nat \<Rightarrow> string) \<Rightarrow> document \<Rightarrow> document" where
  "create_conclusion upper lit doc = run_statements doc
     [(\<lambda>doc. fst (add_heading upper doc (lit 636) 1)),
      (\<lambda>doc. fst (add_paragraph doc (lit 638) False True)),
      (\<lambda>doc. fst (add_paragraph doc (lit 640) False True)),
      (\<lambda>doc. fst (add_list_item doc (lit 642) (Some 1))),
      (\<lambda>doc. fst (add_list_item doc (lit 644) (Some 2))),
      (\<lambda>doc. fst (add_list_item doc (lit 646) (Some 3))),
      (\<lambda>doc. fst (add_list_item doc (lit 648) (Some 4))),
      (\<lambda>doc. fst (add_list_item doc (lit 650) (Some 5))),
      (\<lambda>doc. fst (add_list_item doc (lit 652) (Some 6))),
      (\<lambda>doc. fst (add_paragraph doc (lit 654) False True)),
      (\<lambda>doc. fst (add_paragraph doc (lit 656) False True)),
      (\<lambda>doc. fst (add_list_item doc (lit 657) None)),
      (\<lambda>doc. fst (add_list_item doc (lit 658) None)),
      (\<lambda>doc. fst (add_list_item doc (lit 659) None)),
      (\<lambda>doc. fst (add_list_item doc (lit 660) None))]"

subsection \<open>Bibliography\<close>

definition references :: "(nat \<Rightarrow> string) \<Rightarrow> string list" where
  "references lit =
     [lit 667, lit 668, lit 669, lit 670, lit 671, lit 672, lit 673, lit 674, lit 675, lit 676, lit 677, lit 678, lit 679, lit 680, lit 681]"

text \<open>The body of the loop \<open>for i, ref in enumerate(references, 1)\<close>.\<close>

definition reference_paragraph :: "nat \<Rightarrow> string \<Rightarrow> paragraph" where
  "reference_paragraph i ref =
     (let p = new_paragraph;
          p = p\<lparr>alignment := Some JUSTIFY\<rparr>;
          r = new_run (str_int (int i) @ ''. '' @ ref);
          r = r\<lparr>font_name := Some ''Times New Roman''\<rparr>;
          r = r\<lparr>font_size := Some (Pt 14)\<rparr>;
          r = r\<lparr>east_asia := Some ''Times New Roman''\<rparr>;
          p = add_run p r
      in set_paragraph_format p 0 0 1.5 (Some 0))"

definition reference_entry :: "document \<Rightarrow> nat \<Rightarrow> string \<Rightarrow> document" where
  "reference_entry doc i ref = doc_append doc (Para (reference_paragraph i ref))"

definition create_references ::
  "(string \<Rightarrow> string) \<Rightarrow> (nat \<Rightarrow> string) \<Rightarrow> document \<Rightarrow> document" where
  "create_references upper lit doc =
     foldl (\<lambda>d (i, ref). reference_entry d i ref)
       (fst (add_heading upper doc (lit 664) 1)) (enumerate 1 (references lit))"

subsection \<open>The whole document\<close>

text \<open>
  \<open>Document()\<close> opens the library's default template: one section, nothing in the body. The
  geometry of the template is not the program's; \<open>setup_document\<close> overwrites all of it.
\<close>

definition Document :: document where
  "Document = \<lparr>sections = [\<lparr>page_height = None, page_width = None, left_margin = None,
       right_margin = None, top_margin = None, bottom_margin = None, header_distance = None,
       footer_distance = None\<rparr>], body = []\<rparr>"

text \<open>\<open>main\<close> composes the document and saves it; the value is the document that is saved.\<close>

definition main :: "(string \<Rightarrow> string) \<Rightarrow> (nat \<Rightarrow> string) \<Rightarrow> py_error + document" where
  "main upper lit =
     (let doc = Document;
          doc = setup_document doc;
          doc = create_title_page lit doc;
          doc = add_page_break doc;
          doc = create_toc upper lit doc;
          doc = add_page_break doc;
          doc = create_introduction upper lit doc;
          doc = add_page_break doc;
          doc = create_section1 upper lit doc;
          doc = add_page_break doc;
          doc = create_section2 upper lit doc;
          doc = add_page_break doc;
          doc = create_section3 upper lit doc;
          doc = add_page_break doc
      in case create_section4 upper lit doc of
           Inl e \<Rightarrow> Inl e
         | Inr doc \<Rightarrow>
             (let doc = add_page_break doc;
                  doc = create_conclusion upper lit doc;
                  doc = add_page_break doc;
                  doc = create_references upper lit doc
              in Inr doc))"

text \<open>Every text run of the document: those of the paragraphs and of the table cells.\<close>

fun block_runs :: "block \<Rightarrow> run list" where
  "block_runs (Para p) = runs p"
| "block_runs (Tbl t) = concat (map runs (concat (concat (rows t))))"
| "block_runs PageBreak = []"

definition document_runs :: "document \<Rightarrow> run list" where
  "document_runs doc = concat (map block_runs (body doc))"

text \<open>A run carries the page-number field when the three nodes stand side by side in it.\<close>

fun has_page_field :: "element list \<Rightarrow> bool" where
  "has_page_field (a # b # c # es) =
     ((a = FieldBegin \<and> b = FieldInstruction ''PAGE'' \<and> c = FieldEnd) \<or> has_page_field (b # c # es))"
| "has_page_field es = False"

definition carries_page_field :: "run \<Rightarrow> bool" where
  "carries_page_field r = has_page_field (r_children r)"

text \<open>
  The formatting of a paragraph without its text: alignment, spacing and indent of the
  paragraph, and font family, size, boldness and East-Asian font of each run.
\<close>

definition style_record ::
  "paragraph \<Rightarrow> WD_ALIGN_PARAGRAPH option \<times> rat option \<times> length option \<times> length option \<times>
     length option \<times> (string option \<times> length option \<times> bool option \<times> string option) list" where
  "style_record p =
     (alignment p, line_spacing p, space_before p, space_after p, first_line_indent p,
      map (\<lambda>r. (font_name r, font_size r, bold r, east_asia r)) (runs p))"

text \<open>
  The two shapes a table cell takes: one paragraph with one run of text \<open>s\<close> and boldness \<open>b\<close>,
  nothing else assigned; and the runs of a cell.
\<close>

definition text_cell :: "bool option \<Rightarrow> string \<Rightarrow> cell" where
  "text_cell b s =
     [\<lparr>alignment = None,
       runs = [\<lparr>r_text = s, bold = b, font_name = None, font_size = None, east_asia = None,
                r_children = []\<rparr>],
       space_before = None, space_after = None, line_spacing = None, first_line_indent = None\<rparr>]"

definition cell_runs :: "cell \<Rightarrow> run list" where
  "cell_runs c = concat (map runs c)"

text \<open>A run whose East-Asian font is set, to the family of its Latin font.\<close>

definition has_east_asian_fallback :: "run \<Rightarrow> bool" where
  "has_east_asian_fallback r \<longleftrightarrow>
     font_name r = Some ''Times New Roman'' \<and> east_asia r = font_name r"

text \<open>
  No run of the document holds a node appended to its element by hand, and a statement
  that keeps it so.
\<close>

definition no_raw_nodes :: "document \<Rightarrow> bool" where
  "no_raw_nodes doc = list_all (\<lambda>r. r_children r = []) (document_runs doc)"

definition keeps_no_raw_nodes :: "statement \<Rightarrow> bool" where
  "keeps_no_raw_nodes s = (\<forall>d. no_raw_nodes d \<longrightarrow> no_raw_nodes (s d))"

section \<open>Verified properties\<close>

subsection \<open>Auxiliary facts\<close>

lemma children_add_page_number:
  "r_children (add_page_number r) =
     r_children r @ [FieldBegin, FieldInstruction ''PAGE'', FieldEnd]"
  by (simp add: add_page_number_def r_append_def create_attribute_def create_element_def
      OxmlElement_def qn_def FieldBegin_def FieldInstruction_def FieldEnd_def Let_def)

lemma concat_replicate_right: "concat (replicate k xs) @ xs = xs @ concat (replicate k xs)"
  by (induction k) simp_all

lemmas paragraph_defs =
  set_paragraph_format_def truthy_def new_paragraph_def new_run_def add_run_def Let_def

lemma str_int_3: "str_int 3 = ''3''"
  by (simp add: str_int_def str_nat.simps digit_def)

subsection \<open>What the table loops compute\<close>

lemma set_text_cell: "set_text c s = text_cell None s"
  by (simp add: set_text_def text_cell_def new_paragraph_def new_run_def add_run_def)

lemma bold_text_cell: "bold_runs (text_cell b s) = text_cell (Some True) s"
  by (simp add: bold_runs_def text_cell_def)

lemma header_loop_result:
  assumes "0 < length (rows t)" and "i + length headers \<le> length (rows t ! 0)"
  shows "header_loop t i headers =
     Inr (t\<lparr>rows := (rows t)[0 := take i (rows t ! 0) @ map (text_cell (Some True)) headers
                                  @ drop (i + length headers) (rows t ! 0)]\<rparr>)"
  using assms
proof (induction headers arbitrary: t i)
  case Nil
  then show ?case by simp
next
  case (Cons h rest)
  let ?row = "rows t ! 0"
  let ?v = "text_cell (Some True) h"
  let ?t' = "put_cell t 0 i ?v"
  from Cons.prems have i: "i < length ?row" by simp
  have get: "get_cell t 0 i = Inr (?row ! i)"
    using Cons.prems i by (simp add: get_cell_def)
  have rows': "rows ?t' = (rows t)[0 := ?row[i := ?v]]"
    by (simp add: put_cell_def)
  have row0: "rows ?t' ! 0 = ?row[i := ?v]"
    using Cons.prems by (simp add: rows')
  have pre1: "0 < length (rows ?t')" using Cons.prems by (simp add: rows')
  have pre2: "Suc i + length rest \<le> length (rows ?t' ! 0)"
    using Cons.prems by (simp add: row0)
  have tk: "take (Suc i) (?row[i := ?v]) = take i ?row @ [?v]"
    using i by (simp add: take_Suc_conv_app_nth)
  have dr: "drop (Suc i + length rest) (?row[i := ?v]) = drop (Suc i + length rest) ?row"
    by simp
  have "header_loop t i (h # rest) = header_loop ?t' (Suc i) rest"
    by (simp add: get set_text_cell bold_text_cell)
  also have "\<dots> = Inr (?t'\<lparr>rows := (rows ?t')[0 := take (Suc i) (rows ?t' ! 0)
        @ map (text_cell (Some True)) rest @ drop (Suc i + length rest) (rows ?t' ! 0)]\<rparr>)"
    by (rule Cons.IH [OF pre1 pre2])
  also have "\<dots> = Inr (t\<lparr>rows := (rows t)[0 := take i ?row @ map (text_cell (Some True)) (h # rest)
        @ drop (i + length (h # rest)) ?row]\<rparr>)"
    using Cons.prems i by (simp add: tk dr put_cell_def)
  finally show ?case .
qed

lemma row_loop_result:
  assumes "r < length (rows t)" and "c + length ds \<le> length (rows t ! r)"
  shows "row_loop t r c ds =
     Inr (t\<lparr>rows := (rows t)[r := take c (rows t ! r) @ map (text_cell None) ds
                                  @ drop (c + length ds) (rows t ! r)]\<rparr>)"
  using assms
proof (induction ds arbitrary: t c)
  case Nil
  then show ?case by simp
next
  case (Cons d rest)
  let ?row = "rows t ! r"
  let ?v = "text_cell None d"
  let ?t' = "put_cell t r c ?v"
  from Cons.prems have c: "c < length ?row" by simp
  have get: "get_cell t r c = Inr (?row ! c)"
    using Cons.prems c by (simp add: get_cell_def)
  have rows': "rows ?t' = (rows t)[r := ?row[c := ?v]]"
    by (simp add: put_cell_def)
  have rowr: "rows ?t' ! r = ?row[c := ?v]"
    using Cons.prems by (simp add: rows')
  have pre1: "r < length (rows ?t')" using Cons.prems by (simp add: rows')
  have pre2: "Suc c + length rest \<le> length (rows ?t' ! r)"
    using Cons.prems by (simp add: rowr)
  have tk: "take (Suc c) (?row[c := ?v]) = take c ?row @ [?v]"
    using c by (simp add: take_Suc_conv_app_nth)
  have dr: "drop (Suc c + length rest) (?row[c := ?v]) = drop (Suc c + length rest) ?row"
    by simp
  have "row_loop t r c (d # rest) = row_loop ?t' r (Suc c) rest"
    by (simp add: get set_text_cell)
  also have "\<dots> = Inr (?t'\<lparr>rows := (rows ?t')[r := take (Suc c) (rows ?t' ! r)
        @ map (text_cell None) rest @ drop (Suc c + length rest) (rows ?t' ! r)]\<rparr>)"
    by (rule Cons.IH [OF pre1 pre2])
  also have "\<dots> = Inr (t\<lparr>rows := (rows t)[r := take c ?row @ map (text_cell None) (d # rest)
        @ drop (c + length (d # rest)) ?row]\<rparr>)"
    using Cons.prems c by (simp add: tk dr put_cell_def)
  finally show ?case .
qed

lemma data_loop_result:
  assumes "r + length data \<le> length (rows t)"
    and "\<forall>\<rho>\<in>set (rows t). length \<rho> = c"
    and "\<forall>d\<in>set data. length d \<le> c"
  shows "data_loop t r data =
     Inr (t\<lparr>rows := take r (rows t)
            @ map2 (\<lambda>d \<rho>. map (text_cell None) d @ drop (length d) \<rho>) data (drop r (rows t))
            @ drop (r + length data) (rows t)\<rparr>)"
  using assms
proof (induction data arbitrary: t r)
  case Nil
  then show ?case by simp
next
  case (Cons d rest)
  let ?R = "rows t"
  let ?f = "\<lambda>d \<rho>. map (text_cell None) d @ drop (length d) \<rho>"
  let ?x = "?f d (?R ! r)"
  let ?t1 = "t\<lparr>rows := ?R[r := ?x]\<rparr>"
  from Cons.prems have r: "r < length ?R" by simp
  then have len_r: "length (?R ! r) = c" using Cons.prems(2) by simp
  from Cons.prems have len_d: "length d \<le> c" by simp
  have row: "row_loop t r 0 d = Inr ?t1"
    using row_loop_result [of r t 0 d] r len_r len_d by simp
  have pre1: "Suc r + length rest \<le> length (rows ?t1)" using Cons.prems by simp
  have "length ?x = c" using len_r len_d by simp
  then have pre2: "\<forall>\<rho>\<in>set (rows ?t1). length \<rho> = c"
    using Cons.prems(2) set_update_subset_insert [of ?R r ?x] by auto
  have pre3: "\<forall>d\<in>set rest. length d \<le> c" using Cons.prems by simp
  have tk: "take (Suc r) (?R[r := ?x]) = take r ?R @ [?x]"
    using r by (simp add: take_Suc_conv_app_nth)
  have dr: "drop r ?R = ?R ! r # drop (Suc r) ?R"
    using r by (simp add: Cons_nth_drop_Suc)
  have "data_loop t r (d # rest) = data_loop ?t1 (Suc r) rest"
    by (simp add: row)
  also have "\<dots> = Inr (?t1\<lparr>rows := take (Suc r) (rows ?t1)
        @ map2 ?f rest (drop (Suc r) (rows ?t1)) @ drop (Suc r + length rest) (rows ?t1)\<rparr>)"
    by (rule Cons.IH [OF pre1 pre2 pre3])
  also have "\<dots> = Inr (t\<lparr>rows := take r ?R @ map2 ?f (d # rest) (drop r ?R)
        @ drop (r + length (d # rest)) ?R\<rparr>)"
    by (simp add: tk dr)
  finally show ?case .
qed

lemma map2_replicate:
  "length xs \<le> n \<Longrightarrow> map2 f xs (replicate n y) = map (\<lambda>x. f x y) xs"
proof (induction xs arbitrary: n)
  case Nil
  show ?case by simp
next
  case (Cons x xs)
  then obtain m where "n = Suc m" by (cases n) auto
  with Cons show ?case by simp
qed

lemma replicate_4: "replicate 4 x = x # replicate 3 x"
  by (simp add: eval_nat_numeral)

text \<open>
  What the table code returns when nothing is out of range: the header texts, bold, in the
  first cells of row 0, the texts of the \<open>k\<close>-th data row in the first cells of row \<open>k + 1\<close>,
  and every other cell of the 4 by 4 grid as \<open>add_table\<close> made it.
\<close>

lemma create_section4_table_result:
  assumes "length headers \<le> 4" and "length data \<le> 3" and "\<forall>d\<in>set data. length d \<le> 4"
  shows "create_section4_table doc headers data =
     Inr (doc_append doc (Tbl \<lparr>style = Some ''Table Grid'',
       rows = (map (text_cell (Some True)) headers
                 @ replicate (4 - length headers) [new_paragraph])
              # map (\<lambda>d. map (text_cell None) d @ replicate (4 - length d) [new_paragraph]) data
              @ replicate (3 - length data) (replicate 4 [new_paragraph])\<rparr>))"
proof -
  let ?E = "replicate 4 [new_paragraph]"
  let ?h = "map (text_cell (Some True)) headers @ replicate (4 - length headers) [new_paragraph]"
  let ?t0 = "\<lparr>style = Some ''Table Grid'', rows = ?E # replicate 3 ?E\<rparr>"
  let ?t1 = "\<lparr>style = Some ''Table Grid'', rows = ?h # replicate 3 ?E\<rparr>"
  have h: "header_loop ?t0 0 headers = Inr ?t1"
    using header_loop_result [of ?t0 0 headers] assms(1) by simp
  have d: "data_loop ?t1 1 data = Inr \<lparr>style = Some ''Table Grid'',
       rows = ?h
              # map (\<lambda>d. map (text_cell None) d @ replicate (4 - length d) [new_paragraph]) data
              @ replicate (3 - length data) ?E\<rparr>"
    using data_loop_result [of 1 data ?t1 4] assms by (simp add: map2_replicate)
  show ?thesis
    using h d by (simp add: create_section4_table_def add_table_def replicate_4 [of ?E])
qed

text \<open>
  Claim C2. For every run, \<open>add_page_number\<close> changes nothing but the run's node list, to
  which it appends exactly three nodes, side by side and in the order field begin, field
  instruction \<open>PAGE\<close>, field end. Each further invocation appends the same three nodes again:
  after \<open>k\<close> invocations the run holds \<open>k\<close> copies of the triplet behind what it held.
\<close>

theorem add_page_number_field_triplet:
  "add_page_number r =
     r\<lparr>r_children := r_children r @ [FieldBegin, FieldInstruction ''PAGE'', FieldEnd]\<rparr>
   \<and> length (r_children (add_page_number r)) = length (r_children r) + 3
   \<and> r_children ((add_page_number ^^ k) r) =
       r_children r @ concat (replicate k [FieldBegin, FieldInstruction ''PAGE'', FieldEnd])"
proof (intro conjI)
  show "add_page_number r =
     r\<lparr>r_children := r_children r @ [FieldBegin, FieldInstruction ''PAGE'', FieldEnd]\<rparr>"
    by (simp add: add_page_number_def r_append_def create_attribute_def create_element_def
        OxmlElement_def qn_def FieldBegin_def FieldInstruction_def FieldEnd_def Let_def)
  show "length (r_children (add_page_number r)) = length (r_children r) + 3"
    by (simp add: children_add_page_number)
  show "r_children ((add_page_number ^^ k) r) =
       r_children r @ concat (replicate k [FieldBegin, FieldInstruction ''PAGE'', FieldEnd])"
  proof (induction k)
    case 0
    show ?case by simp
  next
    case (Suc k)
    let ?f = "[FieldBegin, FieldInstruction ''PAGE'', FieldEnd]"
    have "r_children ((add_page_number ^^ Suc k) r) = r_children ((add_page_number ^^ k) r) @ ?f"
      by (simp add: children_add_page_number)
    also have "\<dots> = r_children r @ concat (replicate k ?f) @ ?f"
      using Suc.IH by simp
    also have "\<dots> = r_children r @ concat (replicate (Suc k) ?f)"
      using concat_replicate_right [of k ?f] by simp
    finally show ?case .
  qed
qed

text \<open>
  Claim C3. For every text, a heading of level 1 is a paragraph whose single run holds the
  upper-cased text; it is centred, bold, 14pt, with line spacing 1.5, 12pt after, 0pt before
  and a first-line indent of 0; and it is appended at the end of the document.
\<close>

theorem add_heading_level_1:
  "snd (add_heading upper doc text 1) =
     \<lparr>alignment = Some CENTER,
      runs = [\<lparr>r_text = upper text, bold = Some True, font_name = Some ''Times New Roman'',
               font_size = Some (Pt 14), east_asia = Some ''Times New Roman'', r_children = []\<rparr>],
      space_before = Some (Pt 0), space_after = Some (Pt 12), line_spacing = Some 1.5,
      first_line_indent = Some (Cm 0)\<rparr>
   \<and> body (fst (add_heading upper doc text 1)) =
       body doc @ [Para (snd (add_heading upper doc text 1))]"
  by (simp add: add_heading_def doc_append_def paragraph_defs)

text \<open>
  Claim C10. \<open>add_heading\<close> tests only whether the level is 1: every other level (0, 3, a
  negative one) gives the style of level 2: justified, bold, the text unchanged, 14pt, 12pt
  before, 6pt after, first-line indent 1.25cm; and this style differs from the one of level 1.
\<close>

theorem add_heading_other_levels:
  assumes "level \<noteq> 1"
  shows "snd (add_heading upper doc text level) =
     \<lparr>alignment = Some JUSTIFY,
      runs = [\<lparr>r_text = text, bold = Some True, font_name = Some ''Times New Roman'',
               font_size = Some (Pt 14), east_asia = Some ''Times New Roman'', r_children = []\<rparr>],
      space_before = Some (Pt 12), space_after = Some (Pt 6), line_spacing = Some 1.5,
      first_line_indent = Some (Cm 1.25)\<rparr>
   \<and> body (fst (add_heading upper doc text level)) =
       body doc @ [Para (snd (add_heading upper doc text level))]
   \<and> style_record (snd (add_heading upper doc text level))
       \<noteq> style_record (snd (add_heading upper doc text 1))"
  using assms by (simp add: add_heading_def doc_append_def style_record_def paragraph_defs)

theorem add_heading_other_levels_witness:
  "(0::int) \<noteq> 1 \<and> (- 3::int) \<noteq> 1
   \<and> alignment (snd (add_heading (\<lambda>s. s) Document ''abc'' 0)) = Some JUSTIFY
   \<and> map r_text (runs (snd (add_heading (\<lambda>s. s) Document ''abc'' 0))) = [''abc'']
   \<and> first_line_indent (snd (add_heading (\<lambda>s. s) Document ''abc'' (- 3))) = Some (Cm 1.25)
   \<and> space_before (snd (add_heading (\<lambda>s. s) Document ''abc'' (- 3))) = Some (Pt 12)"
  using add_heading_other_levels [of 0 "\<lambda>s. s" Document "''abc''"]
    add_heading_other_levels [of "- 3" "\<lambda>s. s" Document "''abc''"]
  by simp

text \<open>
  Claim C4, as stated, fails for the ordinal 0: \<open>if number:\<close> takes 0 for an absent ordinal,
  and the item gets the dash instead of \<open>0) \<close>.
\<close>

theorem add_list_item_ordinal_zero:
  "map r_text (runs (snd (add_list_item Document ''x'' (Some 0))))
     = [[CHR 0xE2, CHR 0x80, CHR 0x93, CHR '' '', CHR ''x'']]
   \<and> map r_text (runs (snd (add_list_item Document ''x'' (Some 0)))) \<noteq> [''0) x'']"
  by (simp add: add_list_item_def truthy_int_def en_dash_def paragraph_defs)

text \<open>
  Claim C4, amended. For every text and every ordinal other than 0, the run's text is the
  decimal ordinal, \<open>) \<close> and the text; with no ordinal it is the en dash, a space and the
  text. In both cases the paragraph is justified, 14pt, with a first-line indent of 1.25cm.
\<close>

theorem add_list_item_prefix:
  assumes "n \<noteq> 0"
  shows "snd (add_list_item doc text (Some n)) =
     \<lparr>alignment = Some JUSTIFY,
      runs = [\<lparr>r_text = str_int n @ '') '' @ text, bold = None,
               font_name = Some ''Times New Roman'', font_size = Some (Pt 14),
               east_asia = Some ''Times New Roman'', r_children = []\<rparr>],
      space_before = Some (Pt 0), space_after = Some (Pt 0), line_spacing = Some 1.5,
      first_line_indent = Some (Cm 1.25)\<rparr>
   \<and> snd (add_list_item doc text None) =
     \<lparr>alignment = Some JUSTIFY,
      runs = [\<lparr>r_text = en_dash @ '' '' @ text, bold = None,
               font_name = Some ''Times New Roman'', font_size = Some (Pt 14),
               east_asia = Some ''Times New Roman'', r_children = []\<rparr>],
      space_before = Some (Pt 0), space_after = Some (Pt 0), line_spacing = Some 1.5,
      first_line_indent = Some (Cm 1.25)\<rparr>"
  using assms by (simp add: add_list_item_def truthy_int_def paragraph_defs)

theorem add_list_item_prefix_witness:
  "(3::int) \<noteq> 0
   \<and> map r_text (runs (snd (add_list_item Document ''abc'' (Some 3)))) = [''3) abc'']
   \<and> alignment (snd (add_list_item Document ''abc'' (Some 3))) = Some JUSTIFY
   \<and> first_line_indent (snd (add_list_item Document ''abc'' (Some 3))) = Some (Cm 1.25)"
  using add_list_item_prefix [of 3 Document "''abc''"] by (simp add: str_int_3)

text \<open>
  Claim C8. The formatting of an appended block depends on the kind of block and its flags
  only: the same level, the same \<open>bold\<close> and \<open>indent\<close> flags give the same style record whatever
  the document holds already and whatever the text is, and the appended paragraph itself does
  not depend on the document it is appended to.
\<close>

theorem style_resolution_deterministic:
  "style_record (snd (add_heading upper1 doc1 text1 level))
     = style_record (snd (add_heading upper2 doc2 text2 level))
   \<and> style_record (snd (add_paragraph doc1 text1 bold_flag indent))
     = style_record (snd (add_paragraph doc2 text2 bold_flag indent))
   \<and> style_record (snd (add_list_item doc1 text1 number1))
     = style_record (snd (add_list_item doc2 text2 number2))
   \<and> snd (add_heading upper1 doc1 text1 level) = snd (add_heading upper1 doc2 text1 level)
   \<and> snd (add_paragraph doc1 text1 bold_flag indent) = snd (add_paragraph doc2 text1 bold_flag indent)
   \<and> snd (add_list_item doc1 text1 number1) = snd (add_list_item doc2 text1 number1)"
  by (simp add: add_heading_def add_paragraph_def add_list_item_def style_record_def paragraph_defs)

text \<open>
  A data row wider than the table, a header row wider than the table or a fourth data row
  leave the function with Python's \<open>IndexError\<close>.
\<close>

lemma table_out_of_range:
  "create_section4_table Document [''A'', ''B'', ''C'', ''D''] [[''1'', ''2'', ''3'', ''4'', ''5'']]
     = Inl IndexError"
  "create_section4_table Document [''A'', ''B'', ''C'', ''D'', ''E''] [] = Inl IndexError"
  "create_section4_table Document [] [[''1''], [''2''], [''3''], [''4'']] = Inl IndexError"
  by (simp_all add: create_section4_table_def add_table_def get_cell_def put_cell_def
      eval_nat_numeral)

text \<open>
  Claim C6, as stated, fails: with a header row of width 4 and a data row of width 3 the code
  raises nothing. It returns the table of 4 rows and 4 columns, and the fourth cell of the
  short row stays as \<open>add_table\<close> made it.
\<close>

theorem table_short_row_no_error:
  "create_section4_table Document [''A'', ''B'', ''C'', ''D''] [[''1'', ''2'', ''3'']] =
     Inr (Document\<lparr>body := [Tbl \<lparr>style = Some ''Table Grid'',
       rows = [[text_cell (Some True) ''A'', text_cell (Some True) ''B'',
                text_cell (Some True) ''C'', text_cell (Some True) ''D''],
               [text_cell None ''1'', text_cell None ''2'', text_cell None ''3'',
                [new_paragraph]],
               [[new_paragraph], [new_paragraph], [new_paragraph], [new_paragraph]],
               [[new_paragraph], [new_paragraph], [new_paragraph], [new_paragraph]]]\<rparr>]\<rparr>)
   \<and> \<not> isl (create_section4_table Document [''A'', ''B'', ''C'', ''D''] [[''1'', ''2'', ''3'']])"
  by (simp add: create_section4_table_def add_table_def get_cell_def put_cell_def set_text_cell
      bold_text_cell doc_append_def Document_def eval_nat_numeral)

text \<open>
  Claim C6, amended. Appending a table whose header row has width 4 and whose data rows, at
  most three, have width 3 or any other width up to 4, raises no error: the result is the
  table of 4 rows and 4 columns whose first row holds the bold header texts and in which each
  data row holds its texts followed by cells left empty, up to 4 cells; the rows without
  data stay empty.
\<close>

theorem table_short_rows_padded:
  assumes "length headers = 4" and "length data \<le> 3" and "\<forall>d\<in>set data. length d \<le> 4"
  shows "create_section4_table doc headers data =
     Inr (doc_append doc (Tbl \<lparr>style = Some ''Table Grid'',
       rows = map (text_cell (Some True)) headers
              # map (\<lambda>d. map (text_cell None) d @ replicate (4 - length d) [new_paragraph]) data
              @ replicate (3 - length data) (replicate 4 [new_paragraph])\<rparr>))"
  using create_section4_table_result [of headers data doc] assms by simp

theorem table_short_rows_padded_witness:
  "length [''Name'', ''ns/op'', ''B/op'', ''allocs/op''] = 4
   \<and> map length [[''MapCache'', ''220'', ''32'', ''1''], [''FilesystemCache'', ''8000'', ''512''],
         [''SQLiteCache'', ''78000'', ''1024'', ''12'']] = [4, 3, 4]
   \<and> create_section4_table Document [''Name'', ''ns/op'', ''B/op'', ''allocs/op'']
        [[''MapCache'', ''220'', ''32'', ''1''], [''FilesystemCache'', ''8000'', ''512''],
         [''SQLiteCache'', ''78000'', ''1024'', ''12'']] =
     Inr (doc_append Document (Tbl \<lparr>style = Some ''Table Grid'',
       rows = [[text_cell (Some True) ''Name'', text_cell (Some True) ''ns/op'',
                text_cell (Some True) ''B/op'', text_cell (Some True) ''allocs/op''],
               [text_cell None ''MapCache'', text_cell None ''220'', text_cell None ''32'',
                text_cell None ''1''],
               [text_cell None ''FilesystemCache'', text_cell None ''8000'',
                text_cell None ''512'', [new_paragraph]],
               [text_cell None ''SQLiteCache'', text_cell None ''78000'',
                text_cell None ''1024'', text_cell None ''12'']]\<rparr>))"
  using table_short_rows_padded [of "[''Name'', ''ns/op'', ''B/op'', ''allocs/op'']"
      "[[''MapCache'', ''220'', ''32'', ''1''], [''FilesystemCache'', ''8000'', ''512''],
        [''SQLiteCache'', ''78000'', ''1024'', ''12'']]" Document]
  by simp

text \<open>
  Claim C7, as stated, fails: the table is made with \<open>add_table(rows=4, cols=4)\<close> whatever the
  lists hold. A header row of width 2 with two data rows of width 2 gives 4 rows of 4 cells,
  not 3 rows of 2; and with a header row of width 4 and four data rows of width 4 the fifth
  row is out of range.
\<close>

theorem table_shape_fixed:
  "create_section4_table Document [''A'', ''B''] [[''1'', ''2''], [''3'', ''4'']] =
     Inr (Document\<lparr>body := [Tbl \<lparr>style = Some ''Table Grid'',
       rows = [[text_cell (Some True) ''A'', text_cell (Some True) ''B'',
                [new_paragraph], [new_paragraph]],
               [text_cell None ''1'', text_cell None ''2'', [new_paragraph], [new_paragraph]],
               [text_cell None ''3'', text_cell None ''4'', [new_paragraph], [new_paragraph]],
               [[new_paragraph], [new_paragraph], [new_paragraph], [new_paragraph]]]\<rparr>]\<rparr>)
   \<and> create_section4_table Document [''A'', ''B'', ''C'', ''D'']
        [[''1'', ''2'', ''3'', ''4''], [''1'', ''2'', ''3'', ''4''],
         [''1'', ''2'', ''3'', ''4''], [''1'', ''2'', ''3'', ''4'']] = Inl IndexError"
  by (simp add: create_section4_table_def add_table_def get_cell_def put_cell_def set_text_cell
      bold_text_cell doc_append_def Document_def eval_nat_numeral)

text \<open>
  Claim C7, amended. For a header row of width 4 and three data rows each of width 4, the
  shape the table code is written for, the appended table has exactly 4 rows, one more than
  the data rows, each of 4 cells; the cells hold the given texts, every run of a header cell
  is bold and no run of a data cell is.
\<close>

theorem table_shape_and_bold:
  assumes "length headers = 4" and "length data = 3" and "\<forall>d\<in>set data. length d = 4"
  shows "\<exists>t. create_section4_table doc headers data = Inr (doc_append doc (Tbl t))
     \<and> length (rows t) = 1 + length data
     \<and> list_all (\<lambda>\<rho>. length \<rho> = length headers) (rows t)
     \<and> map (map r_text \<circ> cell_runs) (hd (rows t)) = map (\<lambda>h. [h]) headers
     \<and> map (map (map r_text \<circ> cell_runs)) (tl (rows t)) = map (map (\<lambda>s. [s])) data
     \<and> list_all (\<lambda>r. bold r = Some True) (concat (map cell_runs (hd (rows t))))
     \<and> list_all (\<lambda>r. bold r \<noteq> Some True) (concat (map cell_runs (concat (tl (rows t)))))"
proof -
  let ?t = "\<lparr>style = Some ''Table Grid'',
       rows = map (text_cell (Some True)) headers # map (map (text_cell None)) data\<rparr>"
  have same: "map (\<lambda>d. map (text_cell None) d @ replicate (4 - length d) [new_paragraph]) data
          = map (map (text_cell None)) data"
    by (rule map_cong [OF refl]) (simp add: assms)
  have "create_section4_table doc headers data = Inr (doc_append doc (Tbl ?t))"
    using create_section4_table_result [of headers data doc] assms by (simp add: same)
  moreover have "length (rows ?t) = 1 + length data" by simp
  moreover have "list_all (\<lambda>\<rho>. length \<rho> = length headers) (rows ?t)"
    using assms by (simp add: list_all_iff)
  moreover have "map (map r_text \<circ> cell_runs) (hd (rows ?t)) = map (\<lambda>h. [h]) headers"
    by (simp add: cell_runs_def text_cell_def)
  moreover have "map (map (map r_text \<circ> cell_runs)) (tl (rows ?t)) = map (map (\<lambda>s. [s])) data"
    by (simp add: cell_runs_def text_cell_def)
  moreover have "list_all (\<lambda>r. bold r = Some True) (concat (map cell_runs (hd (rows ?t))))"
    by (simp add: list_all_iff cell_runs_def text_cell_def)
  moreover have
    "list_all (\<lambda>r. bold r \<noteq> Some True) (concat (map cell_runs (concat (tl (rows ?t)))))"
    by (auto simp add: list_all_iff cell_runs_def text_cell_def)
  ultimately show ?thesis by blast
qed

theorem table_shape_and_bold_witness:
  "length [''Name'', ''ns/op'', ''B/op'', ''allocs/op''] = 4
   \<and> map length [[''MapCache'', ''220'', ''32'', ''1''], [''FilesystemCache'', ''8000'', ''512'', ''5''],
         [''SQLiteCache'', ''78000'', ''1024'', ''12'']] = [4, 4, 4]
   \<and> (\<exists>t. create_section4_table Document [''Name'', ''ns/op'', ''B/op'', ''allocs/op'']
          [[''MapCache'', ''220'', ''32'', ''1''], [''FilesystemCache'', ''8000'', ''512'', ''5''],
           [''SQLiteCache'', ''78000'', ''1024'', ''12'']] = Inr (doc_append Document (Tbl t))
        \<and> length (rows t) = 4
        \<and> list_all (\<lambda>\<rho>. length \<rho> = 4) (rows t)
        \<and> map (map r_text \<circ> cell_runs) (hd (rows t))
            = [[''Name''], [''ns/op''], [''B/op''], [''allocs/op'']]
        \<and> map (map (map r_text \<circ> cell_runs)) (tl (rows t))
            = [[[''MapCache''], [''220''], [''32''], [''1'']],
               [[''FilesystemCache''], [''8000''], [''512''], [''5'']],
               [[''SQLiteCache''], [''78000''], [''1024''], [''12'']]]
        \<and> list_all (\<lambda>r. bold r = Some True) (concat (map cell_runs (hd (rows t))))
        \<and> list_all (\<lambda>r. bold r \<noteq> Some True) (concat (map cell_runs (concat (tl (rows t))))))"
  using table_shape_and_bold [of "[''Name'', ''ns/op'', ''B/op'', ''allocs/op'']"
      "[[''MapCache'', ''220'', ''32'', ''1''], [''FilesystemCache'', ''8000'', ''512'', ''5''],
        [''SQLiteCache'', ''78000'', ''1024'', ''12'']]" Document]
  by (simp add: eval_nat_numeral)

subsection \<open>Table of contents and fonts\<close>

lemma body_toc_loop:
  "body (foldl (\<lambda>d (item, page). toc_entry d item page) d xs) =
     body d @ map (\<lambda>(item, page). Para (toc_paragraph item page)) xs"
  by (induction xs arbitrary: d) (auto simp: toc_entry_def doc_append_def)

text \<open>
  Claim C5, as stated, fails: the loop of \<open>create_toc\<close> never assigns an alignment, so an entry
  of the table of contents is not a justified paragraph.
\<close>

theorem toc_entry_not_justified:
  "body (toc_entry Document ''1.1 Intro'' ''5'') = [Para (toc_paragraph ''1.1 Intro'' ''5'')]
   \<and> alignment (toc_paragraph ''1.1 Intro'' ''5'') = None
   \<and> alignment (toc_paragraph ''1.1 Intro'' ''5'') \<noteq> Some JUSTIFY"
  by (simp add: toc_entry_def toc_paragraph_def doc_append_def Document_def paragraph_defs)

text \<open>
  Claim C5, amended. Every entry of the table of contents is a paragraph whose alignment is
  left unset, with a first-line indent of 0, and with a tab between the title (itself behind a
  tab when it starts with a subsection number) and the literal page number; \<open>create_toc\<close>
  appends the heading and then one such paragraph for each item, in order.
\<close>

theorem toc_entries_format:
  "alignment (toc_paragraph item page) = None
   \<and> first_line_indent (toc_paragraph item page) = Some (Cm 0)
   \<and> map r_text (runs (toc_paragraph item page)) =
       [if startswith item [''1.'', ''2.'', ''3.'', ''4.''] then tab @ item else item, tab @ page]
   \<and> body (create_toc upper lit doc) =
       body doc @ Para (snd (add_heading upper doc (lit 264) 1))
         # map (\<lambda>(item, page). Para (toc_paragraph item page)) (toc_items lit)"
proof (intro conjI)
  show "alignment (toc_paragraph item page) = None"
    by (simp add: toc_paragraph_def paragraph_defs)
  show "first_line_indent (toc_paragraph item page) = Some (Cm 0)"
    by (simp add: toc_paragraph_def paragraph_defs)
  show "map r_text (runs (toc_paragraph item page)) =
       [if startswith item [''1.'', ''2.'', ''3.'', ''4.''] then tab @ item else item, tab @ page]"
    by (simp add: toc_paragraph_def paragraph_defs)
  show "body (create_toc upper lit doc) =
       body doc @ Para (snd (add_heading upper doc (lit 264) 1))
         # map (\<lambda>(item, page). Para (toc_paragraph item page)) (toc_items lit)"
    by (simp add: create_toc_def body_toc_loop add_heading_def doc_append_def Let_def)
qed

text \<open>
  Claim C9, as stated, fails: the runs of table cells get no font at all, neither Latin nor
  East-Asian.
\<close>

theorem runs_without_east_asian_font:
  "map_sum id (map east_asia \<circ> document_runs)
       (create_section4_table Document [''A''] [[''1'']]) = Inr [None, None]
   \<and> map_sum id (map font_name \<circ> document_runs)
       (create_section4_table Document [''A''] [[''1'']]) = Inr [None, None]"
  by (simp add: create_section4_table_def add_table_def get_cell_def put_cell_def set_text_cell
      bold_runs_def text_cell_def doc_append_def Document_def document_runs_def new_paragraph_def
      eval_nat_numeral)

lemma document_runs_append: "document_runs (doc_append doc b) = document_runs doc @ block_runs b"
  by (simp add: document_runs_def doc_append_def)

lemma document_runs_add_paragraphs:
  "document_runs ((doc_add_paragraph ^^ n) doc) = document_runs doc"
  by (induction n) (simp_all add: doc_add_paragraph_def document_runs_append new_paragraph_def)

lemma document_runs_run_statements:
  "document_runs (run_statements doc (s # stmts)) = document_runs (run_statements (s doc) stmts)"
  "document_runs (run_statements doc []) = document_runs doc"
  by (simp_all add: run_statements_def)

text \<open>
  Claim C9, amended. Every run made by \<open>add_heading\<close>, \<open>add_paragraph\<close>, \<open>add_list_item\<close>, by an
  entry of the bibliography, on the title page, and as the title run of an entry of the table
  of contents has the East-Asian font set to the family of its Latin font, Times New Roman.
  The runs of table cells, header or data, have no font assigned.
\<close>

theorem east_asian_font_of_styled_runs:
  "list_all has_east_asian_fallback (runs (snd (add_heading upper doc text level)))
   \<and> list_all has_east_asian_fallback (runs (snd (add_paragraph doc text bold_flag indent)))
   \<and> list_all has_east_asian_fallback (runs (snd (add_list_item doc text number)))
   \<and> list_all has_east_asian_fallback (runs (reference_paragraph i ref))
   \<and> list_all has_east_asian_fallback (take 1 (runs (toc_paragraph item page)))
   \<and> list_all has_east_asian_fallback (document_runs (create_title_page lit Document))
   \<and> list_all (\<lambda>r. font_name r = None \<and> east_asia r = None)
        (cell_runs (set_text c s) @ cell_runs (bold_runs (set_text c s)))"
proof (intro conjI)
  show "list_all has_east_asian_fallback (runs (snd (add_heading upper doc text level)))"
    by (simp add: add_heading_def has_east_asian_fallback_def paragraph_defs)
  show "list_all has_east_asian_fallback (runs (snd (add_paragraph doc text bold_flag indent)))"
    by (simp add: add_paragraph_def has_east_asian_fallback_def paragraph_defs)
  show "list_all has_east_asian_fallback (runs (snd (add_list_item doc text number)))"
    by (simp add: add_list_item_def has_east_asian_fallback_def paragraph_defs)
  show "list_all has_east_asian_fallback (runs (reference_paragraph i ref))"
    by (simp add: reference_paragraph_def has_east_asian_fallback_def paragraph_defs)
  show "list_all has_east_asian_fallback (take 1 (runs (toc_paragraph item page)))"
    by (simp add: toc_paragraph_def has_east_asian_fallback_def paragraph_defs)
  show "list_all has_east_asian_fallback (document_runs (create_title_page lit Document))"
    by (simp add: create_title_page_def document_runs_run_statements document_runs_append
        document_runs_add_paragraphs doc_add_paragraph_def
        has_east_asian_fallback_def new_paragraph_def new_run_def add_run_def)
      (simp add: Document_def document_runs_def)
  show "list_all (\<lambda>r. font_name r = None \<and> east_asia r = None)
        (cell_runs (set_text c s) @ cell_runs (bold_runs (set_text c s)))"
    by (simp add: set_text_cell bold_runs_def cell_runs_def text_cell_def)
qed

subsection \<open>No statement of \<open>main\<close> appends a field\<close>

lemma no_raw_nodes_append:
  "no_raw_nodes (doc_append doc b) \<longleftrightarrow>
     no_raw_nodes doc \<and> list_all (\<lambda>r. r_children r = []) (block_runs b)"
  by (simp add: no_raw_nodes_def document_runs_append)

lemma keeps_add_heading: "keeps_no_raw_nodes (\<lambda>doc. fst (add_heading upper doc text level))"
  by (simp add: keeps_no_raw_nodes_def add_heading_def no_raw_nodes_append paragraph_defs)

lemma keeps_add_paragraph: "keeps_no_raw_nodes (\<lambda>doc. fst (add_paragraph doc text b i))"
  by (simp add: keeps_no_raw_nodes_def add_paragraph_def no_raw_nodes_append paragraph_defs)

lemma keeps_add_list_item: "keeps_no_raw_nodes (\<lambda>doc. fst (add_list_item doc text number))"
  by (simp add: keeps_no_raw_nodes_def add_list_item_def no_raw_nodes_append paragraph_defs)

lemma keeps_doc_add_paragraph: "keeps_no_raw_nodes doc_add_paragraph"
  by (simp add: keeps_no_raw_nodes_def doc_add_paragraph_def no_raw_nodes_append new_paragraph_def)

lemma keeps_doc_add_paragraphs: "keeps_no_raw_nodes (doc_add_paragraph ^^ n)"
  by (simp add: keeps_no_raw_nodes_def no_raw_nodes_def document_runs_add_paragraphs)

lemma keeps_title_line:
  "r_children r = [] \<Longrightarrow> runs p0 = [] \<Longrightarrow>
     keeps_no_raw_nodes (\<lambda>doc. doc_append doc (Para (add_run p0 r)))"
  by (simp add: keeps_no_raw_nodes_def no_raw_nodes_append add_run_def)

lemma no_raw_nodes_run_statements:
  "no_raw_nodes doc \<Longrightarrow> list_all keeps_no_raw_nodes stmts \<Longrightarrow>
     no_raw_nodes (run_statements doc stmts)"
  unfolding run_statements_def
  by (induction stmts arbitrary: doc) (simp_all add: keeps_no_raw_nodes_def)

lemmas keeps_statement =
  keeps_add_heading keeps_add_paragraph keeps_add_list_item keeps_doc_add_paragraph
  keeps_doc_add_paragraphs

lemma no_raw_nodes_add_page_break: "no_raw_nodes doc \<Longrightarrow> no_raw_nodes (add_page_break doc)"
  by (simp add: add_page_break_def no_raw_nodes_append)

lemma no_raw_nodes_setup_document: "no_raw_nodes (setup_document Document)"
  by (simp add: setup_document_def Document_def no_raw_nodes_def document_runs_def)

lemma no_raw_nodes_title_page:
  "no_raw_nodes doc \<Longrightarrow> no_raw_nodes (create_title_page lit doc)"
  unfolding create_title_page_def
  by (rule no_raw_nodes_run_statements)
    (simp_all add: keeps_statement keeps_title_line new_paragraph_def new_run_def)

lemma no_raw_nodes_toc_loop:
  "no_raw_nodes d \<Longrightarrow> no_raw_nodes (foldl (\<lambda>d (item, page). toc_entry d item page) d xs)"
  by (induction xs arbitrary: d)
    (auto simp add: toc_entry_def toc_paragraph_def no_raw_nodes_append paragraph_defs)

lemma no_raw_nodes_toc: "no_raw_nodes doc \<Longrightarrow> no_raw_nodes (create_toc upper lit doc)"
  using keeps_add_heading [of upper "lit 264" 1]
  by (simp add: create_toc_def no_raw_nodes_toc_loop keeps_no_raw_nodes_def)

lemma no_raw_nodes_reference_loop:
  "no_raw_nodes d \<Longrightarrow> no_raw_nodes (foldl (\<lambda>d (i, ref). reference_entry d i ref) d xs)"
  by (induction xs arbitrary: d)
    (auto simp add: reference_entry_def reference_paragraph_def no_raw_nodes_append paragraph_defs)

lemma no_raw_nodes_references:
  "no_raw_nodes doc \<Longrightarrow> no_raw_nodes (create_references upper lit doc)"
  using keeps_add_heading [of upper "lit 664" 1]
  by (simp add: create_references_def no_raw_nodes_reference_loop keeps_no_raw_nodes_def)

lemma no_raw_nodes_introduction:
  "no_raw_nodes doc \<Longrightarrow> no_raw_nodes (create_introduction upper lit doc)"
  unfolding create_introduction_def
  by (rule no_raw_nodes_run_statements) (simp_all add: keeps_statement)

lemma no_raw_nodes_section1:
  "no_raw_nodes doc \<Longrightarrow> no_raw_nodes (create_section1 upper lit doc)"
  unfolding create_section1_def
  by (rule no_raw_nodes_run_statements) (simp_all add: keeps_statement)

lemma no_raw_nodes_section2:
  "no_raw_nodes doc \<Longrightarrow> no_raw_nodes (create_section2 upper lit doc)"
  unfolding create_section2_def
  by (rule no_raw_nodes_run_statements) (simp_all add: keeps_statement)

lemma no_raw_nodes_section3:
  "no_raw_nodes doc \<Longrightarrow> no_raw_nodes (create_section3 upper lit doc)"
  unfolding create_section3_def
  by (rule no_raw_nodes_run_statements) (simp_all add: keeps_statement)

lemma no_raw_nodes_conclusion:
  "no_raw_nodes doc \<Longrightarrow> no_raw_nodes (create_conclusion upper lit doc)"
  unfolding create_conclusion_def
  by (rule no_raw_nodes_run_statements) (simp_all add: keeps_statement)

lemma section4_table:
  "create_section4_table doc [h1, h2, h3, h4]
       [[a1, a2, a3, a4], [b1, b2, b3, b4], [c1, c2, c3, c4]] =
     Inr (doc_append doc (Tbl \<lparr>style = Some ''Table Grid'',
       rows = [map (text_cell (Some True)) [h1, h2, h3, h4],
               map (text_cell None) [a1, a2, a3, a4],
               map (text_cell None) [b1, b2, b3, b4],
               map (text_cell None) [c1, c2, c3, c4]]\<rparr>))"
  using create_section4_table_result
    [of "[h1, h2, h3, h4]" "[[a1, a2, a3, a4], [b1, b2, b3, b4], [c1, c2, c3, c4]]" doc]
  by simp

lemma no_raw_nodes_section4:
  assumes "no_raw_nodes doc"
  shows "\<exists>doc'. create_section4 upper lit doc = Inr doc' \<and> no_raw_nodes doc'"
proof -
  let ?pre = "run_statements doc
       [(\<lambda>doc. fst (add_heading upper doc (lit 559) 1)),
          (\<lambda>doc. fst (add_heading upper doc (lit 561) 2)),
          (\<lambda>doc. fst (add_paragraph doc (lit 563) False True)),
          (\<lambda>doc. fst (add_paragraph doc (lit 565) False False)),
          (\<lambda>doc. fst (add_paragraph doc (lit 572) False True)),
          (\<lambda>doc. fst (add_list_item doc (lit 574) None)),
          (\<lambda>doc. fst (add_list_item doc (lit 575) None)),
          (\<lambda>doc. fst (add_list_item doc (lit 576) None)),
          (\<lambda>doc. fst (add_list_item doc (lit 577) None)),
          (\<lambda>doc. fst (add_paragraph doc (lit 579) False True)),
          (\<lambda>doc. fst (add_paragraph doc (lit 581) False False)),
          (\<lambda>doc. fst (add_paragraph doc (lit 586) False True)),
          (\<lambda>doc. fst (add_list_item doc (lit 587) None)),
          (\<lambda>doc. fst (add_list_item doc (lit 588) None)),
          (\<lambda>doc. fst (add_list_item doc (lit 589) None)),
          (\<lambda>doc. fst (add_paragraph doc (lit 591) False True)),
          (\<lambda>doc. fst (add_heading upper doc (lit 593) 2)),
          (\<lambda>doc. fst (add_paragraph doc (lit 595) False True)),
          (\<lambda>doc. fst (add_paragraph doc (lit 597) False True))]"
  have pre: "no_raw_nodes ?pre"
    by (rule no_raw_nodes_run_statements [OF assms]) (simp_all add: keeps_statement)
  show ?thesis
    unfolding create_section4_def Let_def section4_table
    apply (simp del: list.map)
    apply (rule no_raw_nodes_run_statements)
     apply (simp add: no_raw_nodes_append pre text_cell_def)
    apply (simp add: keeps_statement)
    done
qed

text \<open>
  Claim C1 asks for a run of the saved document that carries the page-number field. The code
  never gets there: \<open>main\<close> returns without an exception, \<open>add_page_number\<close> is called nowhere,
  and no run of the document it saves, in a paragraph or in a table cell, carries the three
  nodes.
\<close>

theorem main_has_no_page_number_field:
  "\<exists>doc. main upper lit = Inr doc \<and> filter carries_page_field (document_runs doc) = []"
proof -
  let ?doc3 = "add_page_break (create_section3 upper lit (add_page_break
      (create_section2 upper lit (add_page_break (create_section1 upper lit (add_page_break
      (create_introduction upper lit (add_page_break (create_toc upper lit (add_page_break
      (create_title_page lit (setup_document Document))))))))))))"
  have "no_raw_nodes ?doc3"
    by (intro no_raw_nodes_add_page_break no_raw_nodes_section3 no_raw_nodes_section2
        no_raw_nodes_section1 no_raw_nodes_introduction no_raw_nodes_toc no_raw_nodes_title_page
        no_raw_nodes_setup_document)
  then obtain doc4 where s4: "create_section4 upper lit ?doc3 = Inr doc4" and "no_raw_nodes doc4"
    using no_raw_nodes_section4 by blast
  let ?doc = "create_references upper lit (add_page_break
      (create_conclusion upper lit (add_page_break doc4)))"
  have "no_raw_nodes ?doc"
    using \<open>no_raw_nodes doc4\<close>
    by (intro no_raw_nodes_references no_raw_nodes_add_page_break no_raw_nodes_conclusion)
  then have "filter carries_page_field (document_runs ?doc) = []"
    by (auto simp add: no_raw_nodes_def list_all_iff filter_empty_conv carries_page_field_def)
  moreover have "main upper lit = Inr ?doc"
    by (simp add: main_def Let_def s4)
  ultimately show ?thesis by blast
qed

end
